theory Spec2Isabelle
  imports
    Complex_Main
    "HOL-Library.Finite_Map"
    "HOL-Library.Word"
    "HOL-Library.Char_ord"
    "HOL-Library.List_Lexorder"
begin

section \<open>Manifest values\<close>

text \<open>
  A manifest is a Go \<^verbatim>\<open>map[string]interface{}\<close>. The dynamic values that
  \<^verbatim>\<open>encoding/json\<close> stores in an \<^verbatim>\<open>interface{}\<close> are nil, bool, float64, string,
  \<^verbatim>\<open>map[string]interface{}\<close> and \<^verbatim>\<open>[]interface{}\<close>. The provider itself stores one more
  shape, an int32 (\<^verbatim>\<open>manifestMap["version"] = createVersion\<close>); it is the value shape that
  is neither nil, primitive, map nor slice.

  A float64 read from JSON is finite, so it is a rational number; \<^verbatim>\<open>reflect.DeepEqual\<close>
  compares two float64 with \<^verbatim>\<open>==\<close>, which on finite values is equality of the numbers.
  Maps are finite maps, so that equality of two values of the datatype is
  \<^verbatim>\<open>reflect.DeepEqual\<close>: keys in any order, slices element by element.
  A nil map (the reading of JSON \<^verbatim>\<open>null\<close> into a map variable) has the entries of the
  empty map; \<^verbatim>\<open>reflect.DeepEqual\<close> tells a nil map from an empty one, and where it may be
  given a nil map the model compares that as well.
\<close>

type_synonym int32 = "32 word"

datatype gvalue =
    GNil
  | GBool bool
  | GFloat64 rat
  | GString string
  | GMap "(string, gvalue) fmap"
  | GSlice "gvalue list"
  | GInt32 int32

type_synonym manifest = "(string, gvalue) fmap"

section \<open>Default elision (manifest\_state\_cleanup\_merge.go)\<close>

fun isPrimitiveValue :: "gvalue \<Rightarrow> bool" where
  "isPrimitiveValue (GBool _) = True"
| "isPrimitiveValue (GFloat64 _) = True"
| "isPrimitiveValue (GString _) = True"
| "isPrimitiveValue _ = False"

text \<open>\<^verbatim>\<open>getPrimitiveDefaultValue\<close>: the table's entry when the key has one, else the zero
  value of the value's own type, else nil.\<close>

definition getPrimitiveDefaultValue :: "string \<Rightarrow> gvalue \<Rightarrow> manifest \<Rightarrow> gvalue" where
  "getPrimitiveDefaultValue key val defaultValues =
     (case fmlookup defaultValues key of
        Some defValue \<Rightarrow> defValue
      | None \<Rightarrow>
          (case val of
             GBool _ \<Rightarrow> GBool False
           | GFloat64 _ \<Rightarrow> GFloat64 0
           | GString _ \<Rightarrow> GString []
           | _ \<Rightarrow> GNil))"

text \<open>The body of the \<^verbatim>\<open>range\<close> loop of \<^verbatim>\<open>cleanupManifestDefaults\<close> for one entry
  \<open>(key, val)\<close>: the map after the iteration.\<close>

definition cleanup_entry :: "manifest \<Rightarrow> string \<Rightarrow> gvalue \<Rightarrow> manifest \<Rightarrow> manifest" where
  "cleanup_entry defaultValues key val manifestMap =
     (if val = GNil then fmdrop key manifestMap
      else if isPrimitiveValue val then
        (let defaultValue = getPrimitiveDefaultValue key val defaultValues in
         if defaultValue = GNil then manifestMap
         else if val = defaultValue then fmdrop key manifestMap
         else manifestMap)
      else
        (case val of
           GMap mapVal \<Rightarrow> if fmdom mapVal = {||} then fmdrop key manifestMap else manifestMap
         | GSlice sliceVal \<Rightarrow> if length sliceVal = 0 then fmdrop key manifestMap else manifestMap
         | _ \<Rightarrow> manifestMap))"

text \<open>The loop \<^verbatim>\<open>for key, value := range manifestMap\<close>, visiting the keys in the order
  \<open>keys\<close>. Go produces an entry only if it is still in the map when it is reached.\<close>

fun cleanup_range :: "string list \<Rightarrow> manifest \<Rightarrow> manifest \<Rightarrow> manifest" where
  "cleanup_range [] defaultValues manifestMap = manifestMap"
| "cleanup_range (key # keys) defaultValues manifestMap =
     (case fmlookup manifestMap key of
        None \<Rightarrow> cleanup_range keys defaultValues manifestMap
      | Some val \<Rightarrow> cleanup_range keys defaultValues (cleanup_entry defaultValues key val manifestMap))"

text \<open>Go leaves the order of a map's \<^verbatim>\<open>range\<close> open. The model visits the keys in
  ascending order; \<open>cleanup_range_any_order\<close> below shows that every other order of the
  keys gives the same map.\<close>

definition cleanupManifestDefaults :: "manifest \<Rightarrow> manifest \<Rightarrow> manifest" where
  "cleanupManifestDefaults manifestMap defaultValues =
     cleanup_range (sorted_list_of_fset (fmdom manifestMap)) defaultValues manifestMap"

text \<open>The rule of the specification, in its words: which entries the elision deletes.\<close>

definition spec_elides :: "manifest \<Rightarrow> string \<Rightarrow> gvalue \<Rightarrow> bool" where
  "spec_elides defaults key val =
     (case val of
        GNil \<Rightarrow> True
      | GBool b \<Rightarrow> val = (case fmlookup defaults key of Some d \<Rightarrow> d | None \<Rightarrow> GBool False)
      | GFloat64 x \<Rightarrow> val = (case fmlookup defaults key of Some d \<Rightarrow> d | None \<Rightarrow> GFloat64 0)
      | GString s \<Rightarrow> val = (case fmlookup defaults key of Some d \<Rightarrow> d | None \<Rightarrow> GString [])
      | GMap m \<Rightarrow> m = fmempty
      | GSlice xs \<Rightarrow> xs = []
      | GInt32 _ \<Rightarrow> False)"

text \<open>\<^verbatim>\<open>mergeManifestMaps\<close>: the body of the loop for one entry of \<open>fromMap\<close>, and the
  loop over the keys of \<open>fromMap\<close> (which the loop does not change).\<close>

definition merge_entry :: "string \<Rightarrow> gvalue \<Rightarrow> manifest \<Rightarrow> manifest" where
  "merge_entry key fromValue toMap =
     (let exists = (fmlookup toMap key \<noteq> None) in
      if \<not> exists \<or> isPrimitiveValue fromValue then fmupd key fromValue toMap else toMap)"

fun merge_range :: "string list \<Rightarrow> manifest \<Rightarrow> manifest \<Rightarrow> manifest" where
  "merge_range [] fromMap toMap = toMap"
| "merge_range (key # keys) fromMap toMap =
     (case fmlookup fromMap key of
        None \<Rightarrow> merge_range keys fromMap toMap
      | Some fromValue \<Rightarrow> merge_range keys fromMap (merge_entry key fromValue toMap))"

definition mergeManifestMaps :: "manifest \<Rightarrow> manifest \<Rightarrow> manifest" where
  "mergeManifestMaps fromMap toMap =
     merge_range (sorted_list_of_fset (fmdom fromMap)) fromMap toMap"

section \<open>Default tables and the two cleanup passes\<close>

definition auditableFieldsToIgnore :: "string list" where
  "auditableFieldsToIgnore = [''createTime'', ''updateTime'', ''createdBy'', ''updatedBy'']"

definition defaultTaskDefValues :: manifest where
  "defaultTaskDefValues = fmap_of_list
     [(''backoffScaleFactor'', GFloat64 1),
      (''rateLimitFrequencyInSeconds'', GFloat64 1),
      (''responseTimeoutSeconds'', GFloat64 3600),
      (''retryCount'', GFloat64 3),
      (''retryDelaySeconds'', GFloat64 60),
      (''retryLogic'', GString ''FIXED''),
      (''timeoutPolicy'', GString ''TIME_OUT_WF'')]"

definition defaultWorkflowDefValues :: manifest where
  "defaultWorkflowDefValues = fmap_of_list
     [(''schemaVersion'', GFloat64 2),
      (''timeoutPolicy'', GString ''ALERT_ONLY''),
      (''enforceSchema'', GBool True),
      (''restartable'', GBool True)]"

definition defaultWorkflowDefTaskValues :: manifest where
  "defaultWorkflowDefTaskValues = fmap_of_list [(''type'', GString ''SIMPLE'')]"

text \<open>\<^verbatim>\<open>for _, f := range auditableFieldsToIgnore { delete(m, f) }\<close>\<close>

definition delete_auditable :: "manifest \<Rightarrow> manifest" where
  "delete_auditable m = fold fmdrop auditableFieldsToIgnore m"

text \<open>One element of the \<^verbatim>\<open>tasks\<close> slice in \<^verbatim>\<open>workflowDefCleanup\<close>: a map is cleaned in
  place (the slice holds a reference to it), anything else is logged and skipped.\<close>

definition cleanup_task :: "gvalue \<Rightarrow> gvalue" where
  "cleanup_task t =
     (case t of
        GMap currentTask \<Rightarrow> GMap (cleanupManifestDefaults currentTask defaultWorkflowDefTaskValues)
      | _ \<Rightarrow> t)"

definition workflowDefCleanup :: "manifest \<Rightarrow> manifest" where
  "workflowDefCleanup currentManifestMap =
     (let m1 = delete_auditable currentManifestMap;
          m2 = cleanupManifestDefaults m1 defaultWorkflowDefValues
      in case fmlookup m2 ''tasks'' of
           None \<Rightarrow> m2
         | Some currentTasksVal \<Rightarrow>
             (case currentTasksVal of
                GSlice currentTasksArr \<Rightarrow>
                  fmupd ''tasks'' (GSlice (map cleanup_task currentTasksArr)) m2
              | _ \<Rightarrow> m2))"

section \<open>Reading JSON\<close>

text \<open>
  A JSON text is represented by what \<^verbatim>\<open>encoding/json\<close> reads from it: \<open>None\<close> when the
  text is not valid JSON, else the value. \<^verbatim>\<open>json.Unmarshal(text, &m)\<close> with \<open>m\<close> a
  \<^verbatim>\<open>map[string]interface{}\<close> fails on invalid JSON and on a value that is neither an
  object nor \<^verbatim>\<open>null\<close>; on \<^verbatim>\<open>null\<close> it sets \<open>m\<close> to nil and returns no error (the
  package documents: the JSON null value unmarshals into a map by setting it to nil).
\<close>

type_synonym json_text = "gvalue option"

definition unmarshal_map :: "json_text \<Rightarrow> manifest option" where
  "unmarshal_map doc =
     (case doc of
        None \<Rightarrow> None
      | Some (GMap m) \<Rightarrow> Some m
      | Some GNil \<Rightarrow> Some fmempty
      | Some _ \<Rightarrow> None)"

text \<open>Whether the map that \<^verbatim>\<open>json.Unmarshal\<close> leaves is nil.\<close>

definition is_nil_map :: "json_text \<Rightarrow> bool" where
  "is_nil_map doc = (doc = Some GNil)"

fun is_json_object :: "gvalue \<Rightarrow> bool" where
  "is_json_object (GMap _) = True"
| "is_json_object _ = False"

text \<open>A string attribute of the plugin framework: null, unknown, or a known string (here a
  JSON text). \<^verbatim>\<open>ValueString()\<close> of a null or unknown value is the empty string, which is
  not valid JSON.\<close>

datatype tfstring = TFNull | TFUnknown | TFValue json_text

definition ValueString :: "tfstring \<Rightarrow> json_text" where
  "ValueString v = (case v of TFValue doc \<Rightarrow> doc | _ \<Rightarrow> None)"

section \<open>Diagnostics\<close>

datatype version_error = VersionMustBeInt | VersionSmallerThan1 | VersionNotFound

datatype diag =
    NameMissing
  | NameMustBeString
  | ManifestGetVersionErr version_error
  | FailedToGetVersionFromPlan version_error
  | FailedToGetManifest
  | ErrorReadingResponseBody
  | HTTPGetError int
  | CurrentManifestJSONParseError
  | InvalidCurrentManifest version_error
  | LargerVersionExists
  | DeleteSameVersionTwice
  | DeleteError
  | ClientError
  | HTTPError int
  | FailedToReadResponseBody

section \<open>The manifest name validator (manifest\_name\_validator.go)\<close>

definition ValidateString :: "tfstring \<Rightarrow> diag list" where
  "ValidateString ConfigValue =
     (if ConfigValue = TFNull then []
      else case unmarshal_map (ValueString ConfigValue) of
        None \<Rightarrow> []
      | Some planMap \<Rightarrow>
          (case fmlookup planMap ''name'' of
             None \<Rightarrow> [NameMissing]
           | Some nameVal \<Rightarrow>
               (case nameVal of
                  GString nameStr \<Rightarrow> if nameStr = [] then [NameMustBeString] else []
                | _ \<Rightarrow> [NameMustBeString])))"

section \<open>The workflow definition's version field\<close>

text \<open>
  \<^verbatim>\<open>int32(versionFloat64)\<close>: Go truncates towards zero; when the result does not fit an
  int32 the value is implementation-dependent, and is the parameter \<open>out_of_range\<close>.
\<close>

definition int32_of_float64 :: "(rat \<Rightarrow> int32) \<Rightarrow> rat \<Rightarrow> int32" where
  "int32_of_float64 out_of_range x =
     (let t = (if 0 \<le> x then \<lfloor>x\<rfloor> else \<lceil>x\<rceil>) in
      if - (2 ^ 31) \<le> t \<and> t < 2 ^ 31 then word_of_int t else out_of_range x)"

text \<open>One conversion of the values that do not fit, for running the model: the most
  negative int32, which is what the conversion instruction of x86 processors gives.\<close>

definition min_int32_out_of_range :: "rat \<Rightarrow> int32" where
  "min_int32_out_of_range x = word_of_int (- (2 ^ 31))"

text \<open>The Go function returns \<^verbatim>\<open>(int32, bool, error)\<close>: here the error, or the version and
  whether the field exists.\<close>

definition getWorkflowVersionOptionalFromManifest ::
  "(rat \<Rightarrow> int32) \<Rightarrow> manifest \<Rightarrow> version_error + (int32 \<times> bool)" where
  "getWorkflowVersionOptionalFromManifest out_of_range manifestMap =
     (case fmlookup manifestMap ''version'' of
        None \<Rightarrow> Inr (0, False)
      | Some versionVal \<Rightarrow>
          (case versionVal of
             GFloat64 versionFloat64 \<Rightarrow>
               if versionFloat64 \<noteq> of_int \<lfloor>versionFloat64\<rfloor> then Inl VersionMustBeInt
               else
                 (let versionInt = int32_of_float64 out_of_range versionFloat64 in
                  if versionInt <s 1 then Inl VersionSmallerThan1
                  else Inr (versionInt, True))
           | _ \<Rightarrow> Inl VersionMustBeInt))"

definition getWorkflowVersionFromManifest ::
  "(rat \<Rightarrow> int32) \<Rightarrow> manifest \<Rightarrow> version_error + int32" where
  "getWorkflowVersionFromManifest out_of_range manifestMap =
     (case getWorkflowVersionOptionalFromManifest out_of_range manifestMap of
        Inl err \<Rightarrow> Inl err
      | Inr (version, versionExists) \<Rightarrow>
          if \<not> versionExists then Inl VersionNotFound else Inr version)"

text \<open>\<^verbatim>\<open>getWorkflowNameFromManifest\<close> and \<^verbatim>\<open>getTaskTypeFromManifest\<close> (the same body): the
  diagnostic added, or the name.\<close>

definition getWorkflowNameFromManifest :: "manifest \<Rightarrow> diag + string" where
  "getWorkflowNameFromManifest manifestMap =
     (case fmlookup manifestMap ''name'' of
        None \<Rightarrow> Inl NameMissing
      | Some taskTypeVal \<Rightarrow>
          (case taskTypeVal of
             GString taskType \<Rightarrow> if taskType = [] then Inl NameMustBeString else Inr taskType
           | _ \<Rightarrow> Inl NameMustBeString))"


section \<open>The transport client\<close>

text \<open>
  \<^verbatim>\<open>client.do(ctx, method, path, body)\<close> returns a response or an error. The server is not
  part of the provider: a client is any function from the server's state and a request to
  a response (\<open>None\<close> for \<^verbatim>\<open>err != nil\<close>, where the response is nil) and the next
  state. The paths are the five format strings of the provider with their arguments. A
  response is its status code, whether \<^verbatim>\<open>io.ReadAll\<close> of the body succeeds, and the
  JSON reading of the bytes read. The world is the server's state and the requests sent
  so far.
\<close>

datatype http_method = MethodGet | MethodPut | MethodPost | MethodDelete

datatype url_path =
    MetadataWorkflow
  | MetadataWorkflowName string
  | MetadataWorkflowNameVersion string int32
  | MetadataTaskdefs
  | MetadataTaskdefsName string

record request =
  req_method :: http_method
  req_path :: url_path
  req_body :: "gvalue option"

record response =
  StatusCode :: int
  BodyReadOk :: bool
  BodyJSON :: json_text

type_synonym 's client = "'s \<Rightarrow> request \<Rightarrow> response option \<times> 's"

type_synonym 's world = "'s \<times> request list"

definition client_do :: "'s client \<Rightarrow> request \<Rightarrow> 's world \<Rightarrow> response option \<times> 's world" where
  "client_do c req w =
     (case c (fst w) req of (r, s') \<Rightarrow> (r, (s', snd w @ [req])))"

abbreviation get_workflow :: "string \<Rightarrow> request" where
  "get_workflow name \<equiv>
     \<lparr>req_method = MethodGet, req_path = MetadataWorkflowName name, req_body = None\<rparr>"


abbreviation put_workflow :: "manifest \<Rightarrow> request" where
  "put_workflow manifestMap \<equiv>
     \<lparr>req_method = MethodPut, req_path = MetadataWorkflow,
      req_body = Some (GSlice [GMap manifestMap])\<rparr>"

section \<open>Workflow definitions: delete\<close>

text \<open>\<^verbatim>\<open>getLatestVersion\<close>: the diagnostics added, the version, whether it exists, and the
  world after the GET.\<close>

definition getLatestVersion ::
  "(rat \<Rightarrow> int32) \<Rightarrow> 's client \<Rightarrow> string \<Rightarrow> 's world \<Rightarrow> diag list \<times> int32 \<times> bool \<times> 's world" where
  "getLatestVersion out_of_range c name w =
     (case client_do c (get_workflow name) w of
        (None, w1) \<Rightarrow> ([FailedToGetManifest], 0, False, w1)
      | (Some response, w1) \<Rightarrow>
          if StatusCode response = 404 then ([], 0, False, w1)
          else if \<not> BodyReadOk response then ([ErrorReadingResponseBody], 0, False, w1)
          else if StatusCode response \<noteq> 200 then
            ([HTTPGetError (StatusCode response)], 0, False, w1)
          else
            (case unmarshal_map (BodyJSON response) of
               None \<Rightarrow> ([CurrentManifestJSONParseError], 0, False, w1)
             | Some currentManifestMap \<Rightarrow>
                 (case getWorkflowVersionFromManifest out_of_range currentManifestMap of
                    Inl err \<Rightarrow> ([InvalidCurrentManifest err], 0, False, w1)
                  | Inr currentVersion \<Rightarrow> ([], currentVersion, True, w1))))"



section \<open>Workflow definitions: create\<close>

text \<open>\<^verbatim>\<open>checkExistingVersionBeforeCreate\<close> returns \<^verbatim>\<open>(int32, bool)\<close> and adds diagnostics.
  In auto mode it cleans \<open>planMap\<close> in place, and the caller goes on with that map: the
  model returns the diagnostics, the version, \<^verbatim>\<open>shoudCreate\<close>, the plan map as the call
  leaves it, and the world.\<close>

definition checkExistingVersionBeforeCreate ::
  "(rat \<Rightarrow> int32) \<Rightarrow> 's client \<Rightarrow> manifest \<Rightarrow> 's world \<Rightarrow>
     diag list \<times> int32 \<times> bool \<times> manifest \<times> 's world" where
  "checkExistingVersionBeforeCreate out_of_range c planMap w =
     (case getWorkflowNameFromManifest planMap of
        Inl d \<Rightarrow> ([d], 0, False, planMap, w)
      | Inr name \<Rightarrow>
     (case getWorkflowVersionOptionalFromManifest out_of_range planMap of
        Inl err \<Rightarrow> ([ManifestGetVersionErr err], 0, False, planMap, w)
      | Inr (version, versionExists) \<Rightarrow>
     (case client_do c (get_workflow name) w of
        (None, w1) \<Rightarrow> ([FailedToGetManifest], 0, False, planMap, w1)
      | (Some response, w1) \<Rightarrow>
          if StatusCode response = 404 then
            (if versionExists then ([], version, True, planMap, w1)
             else ([], 1, True, planMap, w1))
          else if \<not> BodyReadOk response then ([ErrorReadingResponseBody], 0, False, planMap, w1)
          else if StatusCode response \<noteq> 200 then
            ([HTTPGetError (StatusCode response)], 0, False, planMap, w1)
          else
     (case unmarshal_map (BodyJSON response) of
        None \<Rightarrow> ([CurrentManifestJSONParseError], 0, False, planMap, w1)
      | Some currentManifestMap \<Rightarrow>
     (case getWorkflowVersionFromManifest out_of_range currentManifestMap of
        Inl err \<Rightarrow> ([InvalidCurrentManifest err], 0, False, planMap, w1)
      | Inr currentVersion \<Rightarrow>
          if versionExists then
            (if version <s currentVersion then ([LargerVersionExists], 0, False, planMap, w1)
             else ([], version, True, planMap, w1))
          else
            (let planMap' = workflowDefCleanup planMap;
                 currentManifestMap' = workflowDefCleanup (fmdrop ''version'' currentManifestMap)
             in if planMap' = currentManifestMap' then ([], currentVersion, False, planMap', w1)
                else ([], currentVersion + 1, True, planMap', w1)))))))"

text \<open>What an operation does to the tracked state: nothing (it returned on an error), the
  resource removed, or the state set with the given \<^verbatim>\<open>version\<close>.\<close>

datatype state_change = StateUnchanged | StateRemoved | StateSet int32

definition WorkflowDefResource_Create ::
  "(rat \<Rightarrow> int32) \<Rightarrow> 's client \<Rightarrow> manifest \<Rightarrow> 's world \<Rightarrow> diag list \<times> state_change \<times> 's world" where
  "WorkflowDefResource_Create out_of_range c manifestMap0 w =
     (case checkExistingVersionBeforeCreate out_of_range c manifestMap0 w of
        (diags, createVersion, shoudCreate, manifestMap, w1) \<Rightarrow>
          if diags \<noteq> [] then (diags, StateUnchanged, w1)
          else if shoudCreate then
            (let manifestMap' = fmupd ''version'' (GInt32 createVersion) (delete_auditable manifestMap)
             in case client_do c (put_workflow manifestMap') w1 of
                  (None, w2) \<Rightarrow> ([ClientError], StateUnchanged, w2)
                | (Some response, w2) \<Rightarrow>
                    if StatusCode response \<noteq> 200 then
                      ([HTTPError (StatusCode response)], StateUnchanged, w2)
                    else if \<not> BodyReadOk response then
                      ([FailedToReadResponseBody], StateUnchanged, w2)
                    else ([], StateSet createVersion, w2))
          else ([], StateSet createVersion, w1))"

section \<open>Workflow definitions: update\<close>

text \<open>A Go call returns, or panics.\<close>

datatype 'a exec = Returns 'a | Panics

text \<open>\<^verbatim>\<open>verifyValidVersionForUpdate\<close>. After a transport error the function adds a
  diagnostic and goes on to \<^verbatim>\<open>defer response.Body.Close()\<close> with a nil response, which
  panics. After a failed read of the body it adds a diagnostic and goes on with the bytes
  read.\<close>

definition verifyValidVersionForUpdate ::
  "(rat \<Rightarrow> int32) \<Rightarrow> 's client \<Rightarrow> manifest \<Rightarrow> int32 \<Rightarrow> 's world \<Rightarrow> (diag list \<times> 's world) exec" where
  "verifyValidVersionForUpdate out_of_range c planMap planVersion w =
     (case getWorkflowNameFromManifest planMap of
        Inl d \<Rightarrow> Returns ([d], w)
      | Inr name \<Rightarrow>
     (case client_do c (get_workflow name) w of
        (None, w1) \<Rightarrow> Panics
      | (Some response, w1) \<Rightarrow>
          if StatusCode response = 404 then Returns ([], w1)
          else
            (let diags1 = (if \<not> BodyReadOk response then [ErrorReadingResponseBody] else []) in
             if StatusCode response \<noteq> 200 then
               Returns (diags1 @ [HTTPGetError (StatusCode response)], w1)
             else
     (case unmarshal_map (BodyJSON response) of
        None \<Rightarrow> Returns (diags1 @ [CurrentManifestJSONParseError], w1)
      | Some currentManifestMap \<Rightarrow>
     (case getWorkflowVersionFromManifest out_of_range currentManifestMap of
        Inl err \<Rightarrow> Returns (diags1 @ [InvalidCurrentManifest err], w1)
      | Inr currentVersion \<Rightarrow>
          if planVersion <s currentVersion then Returns (diags1 @ [LargerVersionExists], w1)
          else Returns (diags1, w1))))))"

text \<open>The PUT at the end of \<^verbatim>\<open>Update\<close> and what follows it.\<close>

definition update_put ::
  "'s client \<Rightarrow> manifest \<Rightarrow> int32 \<Rightarrow> 's world \<Rightarrow> diag list \<times> state_change \<times> 's world" where
  "update_put c manifestMap newVersion w =
     (case client_do c (put_workflow manifestMap) w of
        (None, w1) \<Rightarrow> ([ClientError], StateUnchanged, w1)
      | (Some response, w1) \<Rightarrow>
          if StatusCode response = 404 then ([], StateRemoved, w1)
          else if StatusCode response \<noteq> 200 then
            ([if BodyReadOk response then HTTPError (StatusCode response)
              else FailedToReadResponseBody], StateUnchanged, w1)
          else ([], StateSet newVersion, w1))"

text \<open>\<open>stateVersion\<close> is \<^verbatim>\<open>stateVersion.ValueInt32()\<close>, the tracked version of the prior
  state.\<close>

definition WorkflowDefResource_Update ::
  "(rat \<Rightarrow> int32) \<Rightarrow> 's client \<Rightarrow> manifest \<Rightarrow> int32 \<Rightarrow> 's world \<Rightarrow>
     (diag list \<times> state_change \<times> 's world) exec" where
  "WorkflowDefResource_Update out_of_range c manifestMap0 stateVersion w =
     (let manifestMap = delete_auditable manifestMap0 in
      case getWorkflowVersionOptionalFromManifest out_of_range manifestMap of
        Inl err \<Rightarrow> Returns ([FailedToGetVersionFromPlan err], StateUnchanged, w)
      | Inr (planVersion, planVersionExists) \<Rightarrow>
          if planVersionExists then
            (case verifyValidVersionForUpdate out_of_range c manifestMap planVersion w of
               Panics \<Rightarrow> Panics
             | Returns (diags, w1) \<Rightarrow>
                 if diags \<noteq> [] then Returns (diags, StateUnchanged, w1)
                 else Returns (update_put c manifestMap planVersion w1))
          else
            (let newVersion = stateVersion + 1;
                 manifestMap' = fmupd ''version'' (GInt32 newVersion) manifestMap
             in Returns (update_put c manifestMap' newVersion w)))"

section \<open>Task definitions: delete\<close>



section \<open>Plan modification\<close>

text \<open>\<^verbatim>\<open>ModifyPlan\<close>: \<open>None\<close> is a null raw plan or state. The result is whether the plan is
  replaced by the prior state (\<^verbatim>\<open>resp.Plan.Set(ctx, &state)\<close>), so that no update is
  planned. The cleanup leaves a nil map nil, and \<^verbatim>\<open>reflect.DeepEqual\<close> of two maps holds
  when both are nil or both are not, and they have the same entries.\<close>

definition is_null_or_unknown :: "tfstring \<Rightarrow> bool" where
  "is_null_or_unknown v = (v = TFNull \<or> v = TFUnknown)"

definition TaskDefResource_ModifyPlan :: "tfstring option \<Rightarrow> tfstring option \<Rightarrow> bool" where
  "TaskDefResource_ModifyPlan plan state =
     (case (plan, state) of
        (Some planManifest, Some stateManifest) \<Rightarrow>
          if is_null_or_unknown planManifest then False
          else if is_null_or_unknown stateManifest then False
          else
            (case unmarshal_map (ValueString planManifest) of
               None \<Rightarrow> False
             | Some planDef \<Rightarrow>
                 (case unmarshal_map (ValueString stateManifest) of
                    None \<Rightarrow> False
                  | Some stateDef \<Rightarrow>
                      is_nil_map (ValueString planManifest) = is_nil_map (ValueString stateManifest)
                      \<and> cleanupManifestDefaults planDef defaultTaskDefValues
                          = cleanupManifestDefaults stateDef defaultTaskDefValues))
      | _ \<Rightarrow> False)"

definition WorkflowDefResource_ModifyPlan :: "tfstring option \<Rightarrow> tfstring option \<Rightarrow> bool" where
  "WorkflowDefResource_ModifyPlan plan state =
     (case (plan, state) of
        (Some planManifest, Some stateManifest) \<Rightarrow>
          if is_null_or_unknown planManifest then False
          else if is_null_or_unknown stateManifest then False
          else
            (case unmarshal_map (ValueString planManifest) of
               None \<Rightarrow> False
             | Some planDef \<Rightarrow>
                 (case unmarshal_map (ValueString stateManifest) of
                    None \<Rightarrow> False
                  | Some stateDef \<Rightarrow>
                      is_nil_map (ValueString planManifest) = is_nil_map (ValueString stateManifest)
                      \<and> workflowDefCleanup planDef = workflowDefCleanup stateDef))
      | _ \<Rightarrow> False)"

section \<open>Servers\<close>

text \<open>A server that answers the requests with a fixed list of responses, in order (and
  with a transport error once the list is used up).\<close>

fun scripted :: "response option list client" where
  "scripted [] req = (None, [])"
| "scripted (r # rs) req = (r, rs)"

definition ok_response :: response where
  "ok_response = \<lparr>StatusCode = 200, BodyReadOk = True, BodyJSON = None\<rparr>"

definition status_response :: "int \<Rightarrow> response" where
  "status_response code = \<lparr>StatusCode = code, BodyReadOk = True, BodyJSON = None\<rparr>"

definition manifest_response :: "manifest \<Rightarrow> response" where
  "manifest_response m = \<lparr>StatusCode = 200, BodyReadOk = True, BodyJSON = Some (GMap m)\<rparr>"

text \<open>
  A server that keeps, for each workflow name, the set of its version numbers, the
  server that the delete loop is written for: a GET of a name answers 404 when the name
  has no version and else 200 with the manifest of the highest version; a DELETE of a
  version that is there retires it and answers 200.
\<close>

definition version_manifest :: "string \<Rightarrow> nat \<Rightarrow> manifest" where
  "version_manifest name v =
     fmap_of_list [(''name'', GString name), (''version'', GFloat64 (of_nat v))]"




text \<open>The requests sent when an operation returns.\<close>

definition requests_sent :: "diag list \<times> state_change \<times> 's world \<Rightarrow> request list" where
  "requests_sent res = snd (snd (snd res))"

section \<open>Elision: what one pass does, in any order, and that a second pass changes nothing\<close>

lemma fmdom_empty_iff: "fmdom m = {||} \<longleftrightarrow> m = fmempty"
proof
  assume "fmdom m = {||}"
  then have "fmlookup m k = None" for k
    by (metis fmdom_notD fempty_iff)
  then show "m = fmempty"
    by (intro fmap_ext) simp
qed simp

lemma cleanup_entry_spec:
  "cleanup_entry D key val m = (if spec_elides D key val then fmdrop key m else m)"
  by (cases val)
     (auto simp: cleanup_entry_def spec_elides_def getPrimitiveDefaultValue_def Let_def
                 fmdom_empty_iff
           split: option.splits)

lemma cleanup_range_lookup:
  "fmlookup (cleanup_range keys D m) k =
     (if k \<in> set keys then
        (case fmlookup m k of None \<Rightarrow> None
         | Some v \<Rightarrow> if spec_elides D k v then None else Some v)
      else fmlookup m k)"
proof (induction keys arbitrary: m)
  case Nil
  show ?case by simp
next
  case (Cons key keys)
  show ?case
  proof (cases "fmlookup m key")
    case None
    then show ?thesis using Cons.IH [of m] by (auto split: option.splits)
  next
    case (Some val)
    then show ?thesis
      using Cons.IH [of "cleanup_entry D key val m"]
      by (auto simp: cleanup_entry_spec split: option.splits)
  qed
qed

lemma cleanup_lookup:
  "fmlookup (cleanupManifestDefaults m D) k =
     (case fmlookup m k of None \<Rightarrow> None
      | Some v \<Rightarrow> if spec_elides D k v then None else Some v)"
  by (auto simp: cleanupManifestDefaults_def cleanup_range_lookup fmlookup_dom_iff
           split: option.splits)

lemma cleanup_range_any_order:
  assumes "set keys = fmdom' m"
  shows "cleanup_range keys D m = cleanupManifestDefaults m D"
proof (rule fmap_ext)
  fix k
  show "fmlookup (cleanup_range keys D m) k = fmlookup (cleanupManifestDefaults m D) k"
    using assms
    by (auto simp: cleanup_range_lookup cleanup_lookup fmlookup_dom'_iff split: option.splits)
qed

lemma cleanup_idem:
  "cleanupManifestDefaults (cleanupManifestDefaults m D) D = cleanupManifestDefaults m D"
  by (rule fmap_ext) (auto simp: cleanup_lookup split: option.splits)


subsection \<open>Evaluating finite maps given as lists\<close>

lemma fmdom'_fmap_of_list: "fmdom' (fmap_of_list xs) = fst ` set xs"
  by (simp add: fmdom'_alt_def fset_of_list.rep_eq)

text \<open>
  C6. For every manifest tree and default table, the elision treats each top-level key
  on its own, whatever the order in which the loop visits the keys: a key with a null
  value is deleted; a key with a boolean, number or string value is deleted iff the value
  equals the table's default for the key or, when the table has no entry for the key, the
  zero value of the value's type; a key with a mapping or sequence value is deleted iff
  that value is empty; a key with a value of any other shape is kept as it is.
\<close>

theorem elision_per_key:
  assumes "set keys = fmdom' tree"
  shows "cleanup_range keys defaults tree = cleanupManifestDefaults tree defaults
         \<and> fmlookup (cleanupManifestDefaults tree defaults) key =
             (case fmlookup tree key of
                None \<Rightarrow> None
              | Some v \<Rightarrow> if spec_elides defaults key v then None else Some v)"
  using assms by (simp add: cleanup_range_any_order cleanup_lookup)

text \<open>Scenario A of the specification, the keys visited from the last to the first.\<close>

theorem elision_per_key_witness:
  "set [''timeoutPolicy'', ''retryCount'', ''name'']
     = fmdom' (fmap_of_list [(''name'', GString ''t1''), (''retryCount'', GFloat64 3),
                             (''timeoutPolicy'', GString ''TIME_OUT_WF'')])
   \<and> cleanup_range [''timeoutPolicy'', ''retryCount'', ''name''] defaultTaskDefValues
        (fmap_of_list [(''name'', GString ''t1''), (''retryCount'', GFloat64 3),
                       (''timeoutPolicy'', GString ''TIME_OUT_WF'')])
      = cleanupManifestDefaults
          (fmap_of_list [(''name'', GString ''t1''), (''retryCount'', GFloat64 3),
                         (''timeoutPolicy'', GString ''TIME_OUT_WF'')]) defaultTaskDefValues
   \<and> fmlookup (cleanupManifestDefaults
          (fmap_of_list [(''name'', GString ''t1''), (''retryCount'', GFloat64 3),
                         (''timeoutPolicy'', GString ''TIME_OUT_WF'')]) defaultTaskDefValues)
        ''retryCount'' = None
   \<and> fmlookup (cleanupManifestDefaults
          (fmap_of_list [(''name'', GString ''t1''), (''retryCount'', GFloat64 3),
                         (''timeoutPolicy'', GString ''TIME_OUT_WF'')]) defaultTaskDefValues)
        ''name'' = Some (GString ''t1'')"
proof -
  let ?tree = "fmap_of_list [(''name'', GString ''t1''), (''retryCount'', GFloat64 3),
                             (''timeoutPolicy'', GString ''TIME_OUT_WF'')]"
  let ?keys = "[''timeoutPolicy'', ''retryCount'', ''name'']"
  have dom: "set ?keys = fmdom' ?tree"
    by (simp add: fmdom'_fmap_of_list) blast
  show ?thesis
    using dom elision_per_key [OF dom, of defaultTaskDefValues "''retryCount''"]
          elision_per_key [OF dom, of defaultTaskDefValues "''name''"]
    by (simp add: spec_elides_def defaultTaskDefValues_def)
qed

text \<open>
  C8. Elision is idempotent: for every manifest tree and every default table, a second
  elision pass gives the result of the first.
\<close>

theorem elision_idempotent:
  "cleanupManifestDefaults (cleanupManifestDefaults tree D) D = cleanupManifestDefaults tree D"
  by (rule cleanup_idem)

section \<open>Merge\<close>

lemma merge_range_lookup:
  "fmlookup (merge_range keys fromMap toMap) k =
     (if k \<in> set keys then
        (case fmlookup fromMap k of
           None \<Rightarrow> fmlookup toMap k
         | Some fromValue \<Rightarrow>
             if fmlookup toMap k = None \<or> isPrimitiveValue fromValue then Some fromValue
             else fmlookup toMap k)
      else fmlookup toMap k)"
proof (induction keys arbitrary: toMap)
  case Nil
  show ?case by simp
next
  case (Cons key keys)
  show ?case
  proof (cases "fmlookup fromMap key")
    case None
    then show ?thesis using Cons.IH [of toMap] by (auto split: option.splits)
  next
    case (Some fromValue)
    then show ?thesis
      using Cons.IH [of "merge_entry key fromValue toMap"]
      by (auto simp: merge_entry_def split: option.splits)
  qed
qed

lemma merge_lookup:
  "fmlookup (mergeManifestMaps fromMap toMap) k =
     (case fmlookup fromMap k of
        None \<Rightarrow> fmlookup toMap k
      | Some fromValue \<Rightarrow>
          if fmlookup toMap k = None \<or> isPrimitiveValue fromValue then Some fromValue
          else fmlookup toMap k)"
  by (auto simp: mergeManifestMaps_def merge_range_lookup fmlookup_dom_iff split: option.splits)

lemma merge_range_any_order:
  assumes "set keys = fmdom' fromMap"
  shows "merge_range keys fromMap toMap = mergeManifestMaps fromMap toMap"
proof (rule fmap_ext)
  fix k
  show "fmlookup (merge_range keys fromMap toMap) k = fmlookup (mergeManifestMaps fromMap toMap) k"
    using assms
    by (auto simp: merge_range_lookup merge_lookup fmlookup_dom'_iff split: option.splits)
qed

text \<open>
  C7. For every pair of manifest maps \<open>from\<close> and \<open>into\<close> and every key \<open>k\<close> of \<open>from\<close>,
  whatever the order in which the loop visits the keys of \<open>from\<close>: if \<open>k\<close> is absent in
  \<open>into\<close> or \<open>from[k]\<close> is primitive, then after the merge \<open>into[k]\<close> is \<open>from[k]\<close>; if
  \<open>k\<close> is present in \<open>into\<close> and \<open>from[k]\<close> is not primitive, \<open>into[k]\<close> is left unchanged
  (so a non-empty mapping or sequence already in \<open>into\<close> is preserved).
\<close>

theorem merge_per_key:
  assumes "set keys = fmdom' from" and "fmlookup from k = Some fromValue"
  shows "merge_range keys from into = mergeManifestMaps from into
         \<and> (fmlookup into k = None \<or> isPrimitiveValue fromValue
              \<longrightarrow> fmlookup (mergeManifestMaps from into) k = Some fromValue)
         \<and> (fmlookup into k \<noteq> None \<and> \<not> isPrimitiveValue fromValue
              \<longrightarrow> fmlookup (mergeManifestMaps from into) k = fmlookup into k)"
  using assms by (auto simp: merge_range_any_order merge_lookup)

text \<open>A server echo \<open>{"a": 1, "b": {"x": 1}, "c": ["s"]}\<close> merged into the stored
  \<open>{"a": 2, "b": {"y": 2}}\<close>: \<open>a\<close> is overwritten, \<open>b\<close> is kept, \<open>c\<close> is filled in.\<close>

theorem merge_per_key_witness:
  "fmlookup (mergeManifestMaps
      (fmap_of_list [(''a'', GFloat64 1), (''b'', GMap (fmap_of_list [(''x'', GFloat64 1)])),
                     (''c'', GSlice [GString ''s''])])
      (fmap_of_list [(''a'', GFloat64 2), (''b'', GMap (fmap_of_list [(''y'', GFloat64 2)]))]))
     ''a'' = Some (GFloat64 1)
   \<and> fmlookup (mergeManifestMaps
      (fmap_of_list [(''a'', GFloat64 1), (''b'', GMap (fmap_of_list [(''x'', GFloat64 1)])),
                     (''c'', GSlice [GString ''s''])])
      (fmap_of_list [(''a'', GFloat64 2), (''b'', GMap (fmap_of_list [(''y'', GFloat64 2)]))]))
     ''b'' = Some (GMap (fmap_of_list [(''y'', GFloat64 2)]))
   \<and> fmlookup (mergeManifestMaps
      (fmap_of_list [(''a'', GFloat64 1), (''b'', GMap (fmap_of_list [(''x'', GFloat64 1)])),
                     (''c'', GSlice [GString ''s''])])
      (fmap_of_list [(''a'', GFloat64 2), (''b'', GMap (fmap_of_list [(''y'', GFloat64 2)]))]))
     ''c'' = Some (GSlice [GString ''s''])"
proof -
  let ?from = "fmap_of_list [(''a'', GFloat64 1), (''b'', GMap (fmap_of_list [(''x'', GFloat64 1)])),
                             (''c'', GSlice [GString ''s''])]"
  let ?into = "fmap_of_list [(''a'', GFloat64 2), (''b'', GMap (fmap_of_list [(''y'', GFloat64 2)]))]"
  have dom: "set [''c'', ''a'', ''b''] = fmdom' ?from"
    by (simp add: fmdom'_fmap_of_list) blast
  have a: "fmlookup ?from ''a'' = Some (GFloat64 1)"
    and b: "fmlookup ?from ''b'' = Some (GMap (fmap_of_list [(''x'', GFloat64 1)]))"
    and c: "fmlookup ?from ''c'' = Some (GSlice [GString ''s''])"
    by simp_all
  show ?thesis
    using merge_per_key [OF dom a, of ?into] merge_per_key [OF dom b, of ?into]
          merge_per_key [OF dom c, of ?into]
    by simp
qed

section \<open>The workflow cleanup pass\<close>

lemma delete_auditable_lookup:
  "fmlookup (delete_auditable m) k =
     (if k \<in> set auditableFieldsToIgnore then None else fmlookup m k)"
  by (simp add: delete_auditable_def auditableFieldsToIgnore_def)

lemma cleanup_task_idem: "cleanup_task (cleanup_task t) = cleanup_task t"
  by (cases t) (simp_all add: cleanup_task_def cleanup_idem)

lemma workflowDefCleanup_lookup:
  "fmlookup (workflowDefCleanup m) k =
     (if k \<in> set auditableFieldsToIgnore then None
      else case fmlookup m k of
        None \<Rightarrow> None
      | Some v \<Rightarrow>
          if spec_elides defaultWorkflowDefValues k v then None
          else if k = ''tasks'' then
            (case v of GSlice arr \<Rightarrow> Some (GSlice (map cleanup_task arr)) | _ \<Rightarrow> Some v)
          else Some v)"
  by (auto simp: workflowDefCleanup_def Let_def cleanup_lookup delete_auditable_lookup
                 auditableFieldsToIgnore_def
           split: option.splits gvalue.splits)

lemma tasks_not_elided:
  "spec_elides D ''tasks'' (GSlice (map cleanup_task arr)) \<longleftrightarrow> spec_elides D ''tasks'' (GSlice arr)"
  by (simp add: spec_elides_def)

lemma workflowDefCleanup_idem:
  "workflowDefCleanup (workflowDefCleanup m) = workflowDefCleanup m"
proof (rule fmap_ext)
  fix k
  show "fmlookup (workflowDefCleanup (workflowDefCleanup m)) k = fmlookup (workflowDefCleanup m) k"
    by (auto simp: workflowDefCleanup_lookup tasks_not_elided cleanup_task_idem
             split: option.splits gvalue.splits)
qed

lemma workflowDefCleanup_drop_version:
  "workflowDefCleanup (fmdrop ''version'' m) = fmdrop ''version'' (workflowDefCleanup m)"
proof (rule fmap_ext)
  fix k
  show "fmlookup (workflowDefCleanup (fmdrop ''version'' m)) k
          = fmlookup (fmdrop ''version'' (workflowDefCleanup m)) k"
    by (auto simp: workflowDefCleanup_lookup auditableFieldsToIgnore_def
             split: option.splits gvalue.splits)
qed

section \<open>Plan equality\<close>

text \<open>
  C9. No-op stability of the plan-equality check: for every manifest \<open>m\<close>, the plan
  modifier of its class, given \<open>m\<close> as the proposed manifest and the elided copy of \<open>m\<close>
  as the prior state, finds the two equal after elision and replaces the plan by the
  state, so that no update is planned.
\<close>

theorem plan_noop_stable:
  "TaskDefResource_ModifyPlan
      (Some (TFValue (Some (GMap m))))
      (Some (TFValue (Some (GMap (cleanupManifestDefaults m defaultTaskDefValues)))))
   \<and> WorkflowDefResource_ModifyPlan
      (Some (TFValue (Some (GMap m))))
      (Some (TFValue (Some (GMap (workflowDefCleanup m)))))"
  by (simp add: TaskDefResource_ModifyPlan_def WorkflowDefResource_ModifyPlan_def
                is_null_or_unknown_def ValueString_def unmarshal_map_def is_nil_map_def
                cleanup_idem workflowDefCleanup_idem)

theorem plan_noop_stable_witness:
  "TaskDefResource_ModifyPlan
      (Some (TFValue (Some (GMap (fmap_of_list
         [(''name'', GString ''t1''), (''retryCount'', GFloat64 3)])))))
      (Some (TFValue (Some (GMap (cleanupManifestDefaults
         (fmap_of_list [(''name'', GString ''t1''), (''retryCount'', GFloat64 3)])
         defaultTaskDefValues)))))"
  using plan_noop_stable
          [of "fmap_of_list [(''name'', GString ''t1''), (''retryCount'', GFloat64 3)]"]
  by simp

section \<open>The manifest name validator\<close>

text \<open>
  C10, as the code has it. A configuration value that is null, or whose string is not
  valid JSON, gets no diagnostic. A diagnostic (name missing, or name not a non-empty
  string) is reported only when \<^verbatim>\<open>json.Unmarshal\<close> into a map succeeds, that is when the
  string reads as a JSON object or as the JSON literal \<^verbatim>\<open>null\<close>.
\<close>

theorem validator_reports_only_on_map:
  "(cfg = TFNull \<or> ValueString cfg = None \<longrightarrow> ValidateString cfg = [])
   \<and> (ValidateString cfg \<noteq> [] \<longrightarrow>
        (\<exists>doc. cfg = TFValue (Some doc) \<and> (is_json_object doc \<or> doc = GNil)))"
proof (cases cfg)
  case (TFValue js)
  show ?thesis
  proof (cases js)
    case None
    with TFValue show ?thesis
      by (simp add: ValidateString_def ValueString_def unmarshal_map_def)
  next
    case (Some doc)
    with TFValue show ?thesis
      by (cases doc) (simp_all add: ValidateString_def ValueString_def unmarshal_map_def)
  qed
qed (simp_all add: ValidateString_def ValueString_def unmarshal_map_def)

theorem validator_reports_only_on_map_witness:
  "ValidateString TFNull = []
   \<and> ValidateString (TFValue None) = []
   \<and> ValidateString (TFValue (Some (GMap (fmap_of_list [(''name'', GString [])])))) \<noteq> []
   \<and> is_json_object (GMap (fmap_of_list [(''name'', GString [])]))"
  using validator_reports_only_on_map [of TFNull]
        validator_reports_only_on_map [of "TFValue None"]
        validator_reports_only_on_map
          [of "TFValue (Some (GMap (fmap_of_list [(''name'', GString [])])))"]
  by (simp add: ValidateString_def ValueString_def unmarshal_map_def)

text \<open>The claim as written fails for the configuration string \<^verbatim>\<open>null\<close>: it is valid JSON
  and not an object, and the validator reports that the name is missing.\<close>

theorem validator_null_literal_counterexample:
  "ValidateString (TFValue (Some GNil)) = [NameMissing] \<and> \<not> is_json_object GNil"
  by (simp add: ValidateString_def ValueString_def unmarshal_map_def)

section \<open>Reading a version\<close>

lemma sint_int32_of_int:
  "- (2 ^ 31) \<le> k \<Longrightarrow> k < 2 ^ 31 \<Longrightarrow> sint (word_of_int k :: int32) = k"
  by (simp add: sint_sbintrunc' signed_take_bit_int_eq_self)

lemma sint_int32_of_nat: "n < 2 ^ 31 \<Longrightarrow> sint (of_nat n :: int32) = int n"
  using sint_int32_of_int [of "int n"] by simp

lemma int32_of_nat_sless_1: "n < 2 ^ 31 \<Longrightarrow> (of_nat n :: int32) <s 1 \<longleftrightarrow> n = 0"
  by (auto simp: word_sless_alt sint_int32_of_nat)


lemma int32_of_float64_of_nat:
  "n < 2 ^ 31 \<Longrightarrow> int32_of_float64 out_of_range (of_nat n) = of_nat n"
  by (simp add: int32_of_float64_def)

lemma version_of_version_manifest:
  assumes "0 < n" "n < 2 ^ 31"
  shows "getWorkflowVersionFromManifest out_of_range (version_manifest name n) = Inr (of_nat n)"
  using assms
  by (simp add: getWorkflowVersionFromManifest_def getWorkflowVersionOptionalFromManifest_def
                version_manifest_def int32_of_float64_of_nat int32_of_nat_sless_1)

text \<open>int32 addition of 1 is the next integer below the largest int32, and wraps to the
  smallest int32 there.\<close>

lemma int32_successor:
  assumes "sint (v :: int32) < 2147483647"
  shows "sint (v + 1) = sint v + 1"
proof -
  have lo: "- (2 ^ 31) \<le> sint v + 1"
    using sint_ge [of v] by simp
  have hi: "sint v + 1 < 2 ^ 31"
    using assms by simp
  have "v + 1 = word_of_int (sint v + 1)"
    by simp
  then show ?thesis
    using sint_int32_of_int [OF lo hi] by simp
qed

lemma int32_successor_top: "(2147483647 :: int32) + 1 = - 2147483648"
  by simp

section \<open>The delete loop\<close>

lemma getLatestVersion_calls:
  "getLatestVersion out_of_range c name w = (diags, v, ex, w1)
     \<Longrightarrow> snd w1 = snd w @ [get_workflow name]"
  by (auto simp: getLatestVersion_def client_do_def
           split: prod.splits option.splits if_splits sum.splits)









lemma client_do_calls: "client_do c req w = (r, w1) \<Longrightarrow> snd w1 = snd w @ [req]"
  by (auto simp: client_do_def split: prod.splits)






section \<open>Deleting on a status 500\<close>




section \<open>Creating a workflow definition\<close>

lemma version_absent:
  "fmlookup m ''version'' = None
     \<Longrightarrow> getWorkflowVersionOptionalFromManifest out_of_range m = Inr (0, False)"
  by (simp add: getWorkflowVersionOptionalFromManifest_def)

lemma auto_compare:
  assumes "fmlookup planMap ''version'' = None"
  shows "workflowDefCleanup planMap = workflowDefCleanup (fmdrop ''version'' cur)
           \<longleftrightarrow> fmdrop ''version'' (workflowDefCleanup planMap)
                 = fmdrop ''version'' (workflowDefCleanup cur)"
proof -
  have "fmlookup (workflowDefCleanup planMap) ''version'' = None"
    using assms by (simp add: workflowDefCleanup_lookup)
  then have "fmdrop ''version'' (workflowDefCleanup planMap) = workflowDefCleanup planMap"
    by (intro fmdrop_idle') (simp add: fmdom'_notI)
  then show ?thesis
    by (simp add: workflowDefCleanup_drop_version)
qed

lemma check_404:
  assumes "getWorkflowNameFromManifest planMap = Inr name"
    and "getWorkflowVersionOptionalFromManifest out_of_range planMap = Inr (version, versionExists)"
    and "client_do c (get_workflow name) w = (Some r, w1)"
    and "StatusCode r = 404"
  shows "checkExistingVersionBeforeCreate out_of_range c planMap w
           = ([], if versionExists then version else 1, True, planMap, w1)"
  using assms by (simp add: checkExistingVersionBeforeCreate_def)

lemma check_auto_found:
  assumes "getWorkflowNameFromManifest planMap = Inr name"
    and "fmlookup planMap ''version'' = None"
    and "client_do c (get_workflow name) w = (Some r, w1)"
    and "StatusCode r = 200" and "BodyReadOk r"
    and "unmarshal_map (BodyJSON r) = Some cur"
    and "getWorkflowVersionFromManifest out_of_range cur = Inr v"
  shows "checkExistingVersionBeforeCreate out_of_range c planMap w
           = (if fmdrop ''version'' (workflowDefCleanup planMap)
                   = fmdrop ''version'' (workflowDefCleanup cur)
              then ([], v, False, workflowDefCleanup planMap, w1)
              else ([], v + 1, True, workflowDefCleanup planMap, w1))"
  using assms auto_compare [of planMap cur]
  by (simp add: checkExistingVersionBeforeCreate_def version_absent Let_def)

lemma check_manual_found:
  assumes "getWorkflowNameFromManifest planMap = Inr name"
    and "getWorkflowVersionOptionalFromManifest out_of_range planMap = Inr (version, True)"
    and "client_do c (get_workflow name) w = (Some r, w1)"
    and "StatusCode r = 200" and "BodyReadOk r"
    and "unmarshal_map (BodyJSON r) = Some cur"
    and "getWorkflowVersionFromManifest out_of_range cur = Inr v"
  shows "checkExistingVersionBeforeCreate out_of_range c planMap w
           = (if version <s v then ([LargerVersionExists], 0, False, planMap, w1)
              else ([], version, True, planMap, w1))"
  using assms by (simp add: checkExistingVersionBeforeCreate_def)

lemma create_writes:
  assumes "checkExistingVersionBeforeCreate out_of_range c planMap w
             = ([], createVersion, True, manifestMap, w1)"
  shows "requests_sent (WorkflowDefResource_Create out_of_range c planMap w)
           = snd w1 @ [put_workflow (fmupd ''version'' (GInt32 createVersion)
                                           (delete_auditable manifestMap))]"
  using assms
  by (auto simp: WorkflowDefResource_Create_def requests_sent_def Let_def client_do_def
           split: prod.splits option.splits)

lemma create_written:
  assumes "checkExistingVersionBeforeCreate out_of_range c planMap w
             = ([], createVersion, True, manifestMap, w1)"
    and "client_do c (put_workflow (fmupd ''version'' (GInt32 createVersion)
                                          (delete_auditable manifestMap))) w1 = (Some r2, w2)"
    and "StatusCode r2 = 200" and "BodyReadOk r2"
  shows "WorkflowDefResource_Create out_of_range c planMap w = ([], StateSet createVersion, w2)"
  using assms by (simp add: WorkflowDefResource_Create_def Let_def)

lemma create_skips:
  assumes "checkExistingVersionBeforeCreate out_of_range c planMap w
             = ([], createVersion, False, manifestMap, w1)"
  shows "WorkflowDefResource_Create out_of_range c planMap w = ([], StateSet createVersion, w1)"
  using assms by (simp add: WorkflowDefResource_Create_def)

lemma create_fails:
  assumes "checkExistingVersionBeforeCreate out_of_range c planMap w
             = ([d], createVersion, shoudCreate, manifestMap, w1)"
  shows "WorkflowDefResource_Create out_of_range c planMap w = ([d], StateUnchanged, w1)"
  using assms by (simp add: WorkflowDefResource_Create_def)

text \<open>
  What a create in auto mode (the proposed manifest has no \<open>version\<close> field) does, for
  every client: if the GET of the name answers 404, version 1 is assigned and the create
  write is sent; if the name exists with server version \<open>v\<close> and the proposed manifest
  and the server's manifest are equal after elision, with \<open>version\<close> removed, no write
  is sent and the tracked version is set to \<open>v\<close>; otherwise the write is sent with the
  version \<^verbatim>\<open>currentVersion + 1\<close>, an int32 sum, which by \<open>int32_successor\<close> is the
  integer \<open>v + 1\<close> for every \<open>v\<close> below 2147483647. A write that the server answers
  with 200 sets the tracked version to the assigned one.
\<close>

lemma create_auto_mode:
  assumes "fmlookup planMap ''version'' = None"
    and "getWorkflowNameFromManifest planMap = Inr name"
    and "client_do c (get_workflow name) w = (Some r, w1)"
  shows
    "(StatusCode r = 404 \<longrightarrow>
        requests_sent (WorkflowDefResource_Create out_of_range c planMap w)
          = snd w @ [get_workflow name,
                     put_workflow (fmupd ''version'' (GInt32 1) (delete_auditable planMap))]
        \<and> (client_do c (put_workflow (fmupd ''version'' (GInt32 1) (delete_auditable planMap))) w1
               = (Some r2, w2) \<and> StatusCode r2 = 200 \<and> BodyReadOk r2 \<longrightarrow>
             WorkflowDefResource_Create out_of_range c planMap w = ([], StateSet 1, w2)))
     \<and> (StatusCode r = 200 \<and> BodyReadOk r \<and> unmarshal_map (BodyJSON r) = Some cur
          \<and> getWorkflowVersionFromManifest out_of_range cur = Inr v \<longrightarrow>
          (fmdrop ''version'' (workflowDefCleanup planMap)
              = fmdrop ''version'' (workflowDefCleanup cur) \<longrightarrow>
             WorkflowDefResource_Create out_of_range c planMap w = ([], StateSet v, w1)
             \<and> snd w1 = snd w @ [get_workflow name])
          \<and> (fmdrop ''version'' (workflowDefCleanup planMap)
              \<noteq> fmdrop ''version'' (workflowDefCleanup cur) \<longrightarrow>
             requests_sent (WorkflowDefResource_Create out_of_range c planMap w)
               = snd w @ [get_workflow name,
                          put_workflow (fmupd ''version'' (GInt32 (v + 1))
                                         (delete_auditable (workflowDefCleanup planMap)))]
             \<and> (client_do c (put_workflow (fmupd ''version'' (GInt32 (v + 1))
                                (delete_auditable (workflowDefCleanup planMap)))) w1
                    = (Some r3, w3) \<and> StatusCode r3 = 200 \<and> BodyReadOk r3 \<longrightarrow>
                  WorkflowDefResource_Create out_of_range c planMap w
                    = ([], StateSet (v + 1), w3))))"
proof -
  note calls = client_do_calls [OF assms(3)]
  note absent = version_absent [OF assms(1), where out_of_range = out_of_range]
  have not_found: ?thesis if "StatusCode r = 404"
  proof -
    note chk = check_404 [OF assms(2) absent assms(3) that]
    show ?thesis
      using that calls create_writes [OF chk] create_written [OF chk, where ?r2.0 = r2 and ?w2.0 = w2]
      by simp
  qed
  have found: ?thesis
    if "StatusCode r = 200" "BodyReadOk r" "unmarshal_map (BodyJSON r) = Some cur"
       "getWorkflowVersionFromManifest out_of_range cur = Inr v"
  proof -
    note chk = check_auto_found [OF assms(2) assms(1) assms(3) that]
    show ?thesis
    proof (cases "fmdrop ''version'' (workflowDefCleanup planMap)
                    = fmdrop ''version'' (workflowDefCleanup cur)")
      case True
      with chk have chk': "checkExistingVersionBeforeCreate out_of_range c planMap w
                             = ([], v, False, workflowDefCleanup planMap, w1)"
        by simp
      show ?thesis
        using that True calls create_skips [OF chk'] by simp
    next
      case False
      with chk have chk': "checkExistingVersionBeforeCreate out_of_range c planMap w
                             = ([], v + 1, True, workflowDefCleanup planMap, w1)"
        by simp
      show ?thesis
        using that False calls create_writes [OF chk']
              create_written [OF chk', where ?r2.0 = r3 and ?w2.0 = w3]
        by simp
    qed
  qed
  from not_found found show ?thesis by fastforce
qed

text \<open>The proposed manifest \<open>{"name": "w1"}\<close>: against a server without \<open>w1\<close>; against
  a server that holds \<open>{"name": "w1", "version": 2, "schemaVersion": 2}\<close> (scenario B of
  the specification); and against one that holds
  \<open>{"name": "w1", "version": 2, "ownerEmail": "a"}\<close>.\<close>

lemma create_auto_mode_examples:
  "WorkflowDefResource_Create min_int32_out_of_range scripted (fmap_of_list [(''name'', GString ''w1'')])
      ([Some (status_response 404), Some ok_response], [])
     = ([], StateSet 1,
        ([], [get_workflow ''w1'',
              put_workflow (fmupd ''version'' (GInt32 1)
                (delete_auditable (fmap_of_list [(''name'', GString ''w1'')])))]))
   \<and> WorkflowDefResource_Create min_int32_out_of_range scripted (fmap_of_list [(''name'', GString ''w1'')])
      ([Some (manifest_response (fmap_of_list
          [(''name'', GString ''w1''), (''version'', GFloat64 2),
           (''schemaVersion'', GFloat64 2)]))], [])
     = ([], StateSet 2, ([], [get_workflow ''w1'']))
   \<and> WorkflowDefResource_Create min_int32_out_of_range scripted (fmap_of_list [(''name'', GString ''w1'')])
      ([Some (manifest_response (fmap_of_list
          [(''name'', GString ''w1''), (''version'', GFloat64 2),
           (''ownerEmail'', GString ''a'')])), Some ok_response], [])
     = ([], StateSet 3,
        ([], [get_workflow ''w1'',
              put_workflow (fmupd ''version'' (GInt32 3)
                (delete_auditable (workflowDefCleanup
                   (fmap_of_list [(''name'', GString ''w1'')]))))]))"
proof -
  let ?plan = "fmap_of_list [(''name'', GString ''w1'')]"
  let ?same = "fmap_of_list [(''name'', GString ''w1''), (''version'', GFloat64 2),
                             (''schemaVersion'', GFloat64 2)]"
  let ?other = "fmap_of_list [(''name'', GString ''w1''), (''version'', GFloat64 2),
                              (''ownerEmail'', GString ''a'')]"
  let ?put1 = "put_workflow (fmupd ''version'' (GInt32 1) (delete_auditable ?plan))"
  let ?put3 = "put_workflow (fmupd ''version'' (GInt32 3)
                 (delete_auditable (workflowDefCleanup ?plan)))"
  have auto_mode: "fmlookup ?plan ''version'' = None" by simp
  have nm: "getWorkflowNameFromManifest ?plan = Inr ''w1''"
    by (simp add: getWorkflowNameFromManifest_def)
  have v_same: "getWorkflowVersionFromManifest min_int32_out_of_range ?same = Inr 2"
    and v_other: "getWorkflowVersionFromManifest min_int32_out_of_range ?other = Inr 2"
    by (simp_all add: getWorkflowVersionFromManifest_def
                      getWorkflowVersionOptionalFromManifest_def int32_of_float64_def
                      word_sless_alt)
  have eq: "fmdrop ''version'' (workflowDefCleanup ?plan)
              = fmdrop ''version'' (workflowDefCleanup ?same)"
    by (rule fmap_ext)
       (simp add: workflowDefCleanup_lookup spec_elides_def defaultWorkflowDefValues_def
                  auditableFieldsToIgnore_def)
  have "fmlookup (fmdrop ''version'' (workflowDefCleanup ?plan)) ''ownerEmail''
          \<noteq> fmlookup (fmdrop ''version'' (workflowDefCleanup ?other)) ''ownerEmail''"
    by (simp add: workflowDefCleanup_lookup spec_elides_def defaultWorkflowDefValues_def
                  auditableFieldsToIgnore_def)
  then have neq: "fmdrop ''version'' (workflowDefCleanup ?plan)
                    \<noteq> fmdrop ''version'' (workflowDefCleanup ?other)"
    by metis
  have g1: "client_do scripted (get_workflow ''w1'')
              ([Some (status_response 404), Some ok_response], [])
            = (Some (status_response 404), ([Some ok_response], [get_workflow ''w1'']))"
    and g2: "client_do scripted (get_workflow ''w1'') ([Some (manifest_response ?same)], [])
            = (Some (manifest_response ?same), ([], [get_workflow ''w1'']))"
    and g3: "client_do scripted (get_workflow ''w1'')
              ([Some (manifest_response ?other), Some ok_response], [])
            = (Some (manifest_response ?other), ([Some ok_response], [get_workflow ''w1'']))"
    by (simp_all add: client_do_def)
  have p1: "client_do scripted ?put1 ([Some ok_response], [get_workflow ''w1''])
              = (Some ok_response, ([], [get_workflow ''w1'', ?put1]))"
    and p3: "client_do scripted ?put3 ([Some ok_response], [get_workflow ''w1''])
              = (Some ok_response, ([], [get_workflow ''w1'', ?put3]))"
    by (simp_all add: client_do_def)
  have a: "WorkflowDefResource_Create min_int32_out_of_range scripted ?plan
             ([Some (status_response 404), Some ok_response], [])
           = ([], StateSet 1, ([], [get_workflow ''w1'', ?put1]))"
    using create_auto_mode [OF auto_mode nm g1, where out_of_range = min_int32_out_of_range
            and ?r2.0 = ok_response and ?w2.0 = "([], [get_workflow ''w1'', ?put1])"] p1
    by (simp add: status_response_def ok_response_def)
  have b: "WorkflowDefResource_Create min_int32_out_of_range scripted ?plan
             ([Some (manifest_response ?same)], [])
           = ([], StateSet 2, ([], [get_workflow ''w1'']))"
    using create_auto_mode [OF auto_mode nm g2, where out_of_range = min_int32_out_of_range
            and cur = ?same and v = 2] v_same eq
    by (simp add: manifest_response_def unmarshal_map_def)
  have c: "WorkflowDefResource_Create min_int32_out_of_range scripted ?plan
             ([Some (manifest_response ?other), Some ok_response], [])
           = ([], StateSet 3, ([], [get_workflow ''w1'', ?put3]))"
    using create_auto_mode [OF auto_mode nm g3, where out_of_range = min_int32_out_of_range
            and cur = ?other and v = 2
            and ?r3.0 = ok_response and ?w3.0 = "([], [get_workflow ''w1'', ?put3])"]
          v_other neq p3
    by (simp add: manifest_response_def unmarshal_map_def ok_response_def)
  from a b c show ?thesis by simp
qed

text \<open>
  C1. For every create of a workflow definition in auto mode: on a 404 of the GET,
  version 1 is assigned and the write is sent; on a server manifest of version \<open>v\<close>
  that is equal to the proposed one after elision, no write is sent and the tracked
  version is \<open>v\<close>; otherwise version \<open>v + 1\<close> is assigned and the write is sent. The
  code does this (\<open>create_auto_mode\<close>) except at the largest int32. Against a server
  whose \<open>w1\<close> has version 2147483647 and a manifest that differs from the proposed
  \<open>{"name": "w1"}\<close>, the sum \<^verbatim>\<open>currentVersion + 1\<close> wraps: the write carries the version
  -2147483648, and its 200 answer makes that the tracked version, where \<open>v + 1\<close> is
  2147483648. The provider's own reading of a version rejects the number written as
  smaller than 1.
\<close>

theorem create_auto_mode_overflow:
  "WorkflowDefResource_Create min_int32_out_of_range scripted
      (fmap_of_list [(''name'', GString ''w1'')])
      ([Some (manifest_response (fmap_of_list
          [(''name'', GString ''w1''), (''version'', GFloat64 2147483647),
           (''ownerEmail'', GString ''a'')])), Some ok_response], [])
     = ([], StateSet (- 2147483648),
        ([], [get_workflow ''w1'',
              put_workflow (fmupd ''version'' (GInt32 (- 2147483648))
                (delete_auditable (workflowDefCleanup
                   (fmap_of_list [(''name'', GString ''w1'')]))))]))
   \<and> getWorkflowVersionFromManifest min_int32_out_of_range
        (fmap_of_list [(''name'', GString ''w1''), (''version'', GFloat64 2147483647),
                       (''ownerEmail'', GString ''a'')]) = Inr 2147483647
   \<and> sint (2147483647 :: int32) + 1 = 2147483648
   \<and> sint (- 2147483648 :: int32) = - 2147483648
   \<and> getWorkflowVersionFromManifest min_int32_out_of_range
        (fmap_of_list [(''name'', GString ''w1''), (''version'', GFloat64 (- 2147483648))])
       = Inl VersionSmallerThan1"
proof -
  let ?plan = "fmap_of_list [(''name'', GString ''w1'')]"
  let ?srv = "fmap_of_list [(''name'', GString ''w1''), (''version'', GFloat64 2147483647),
                            (''ownerEmail'', GString ''a'')]"
  let ?put = "put_workflow (fmupd ''version'' (GInt32 (- 2147483648))
                (delete_auditable (workflowDefCleanup ?plan)))"
  let ?w1 = "([Some ok_response], [get_workflow ''w1''])"
  have auto_mode: "fmlookup ?plan ''version'' = None" by simp
  have nm: "getWorkflowNameFromManifest ?plan = Inr ''w1''"
    by (simp add: getWorkflowNameFromManifest_def)
  have top: "getWorkflowVersionFromManifest min_int32_out_of_range ?srv = Inr 2147483647"
    by (simp add: getWorkflowVersionFromManifest_def getWorkflowVersionOptionalFromManifest_def
                  int32_of_float64_def word_sless_alt)
  have bottom: "getWorkflowVersionFromManifest min_int32_out_of_range
        (fmap_of_list [(''name'', GString ''w1''), (''version'', GFloat64 (- 2147483648))])
       = Inl VersionSmallerThan1"
    by (simp add: getWorkflowVersionFromManifest_def getWorkflowVersionOptionalFromManifest_def
                  int32_of_float64_def word_sless_alt)
  have "fmlookup (fmdrop ''version'' (workflowDefCleanup ?plan)) ''ownerEmail''
          \<noteq> fmlookup (fmdrop ''version'' (workflowDefCleanup ?srv)) ''ownerEmail''"
    by (simp add: workflowDefCleanup_lookup spec_elides_def defaultWorkflowDefValues_def
                  auditableFieldsToIgnore_def)
  then have neq: "fmdrop ''version'' (workflowDefCleanup ?plan)
                    \<noteq> fmdrop ''version'' (workflowDefCleanup ?srv)"
    by metis
  have g: "client_do scripted (get_workflow ''w1'')
             ([Some (manifest_response ?srv), Some ok_response], [])
           = (Some (manifest_response ?srv), ?w1)"
    by (simp add: client_do_def)
  have srv: "StatusCode (manifest_response ?srv) = 200" "BodyReadOk (manifest_response ?srv)"
            "unmarshal_map (BodyJSON (manifest_response ?srv)) = Some ?srv"
    by (simp_all add: manifest_response_def unmarshal_map_def)
  have chk: "checkExistingVersionBeforeCreate min_int32_out_of_range scripted ?plan
               ([Some (manifest_response ?srv), Some ok_response], [])
             = ([], - 2147483648, True, workflowDefCleanup ?plan, ?w1)"
    using check_auto_found [OF nm auto_mode g srv top] neq by simp
  have p: "client_do scripted ?put ?w1 = (Some ok_response, ([], [get_workflow ''w1'', ?put]))"
    by (simp add: client_do_def)
  have ok: "StatusCode ok_response = 200" "BodyReadOk ok_response"
    by (simp_all add: ok_response_def)
  have "WorkflowDefResource_Create min_int32_out_of_range scripted ?plan
          ([Some (manifest_response ?srv), Some ok_response], [])
        = ([], StateSet (- 2147483648), ([], [get_workflow ''w1'', ?put]))"
    by (rule create_written [OF chk p ok])
  with top bottom show ?thesis by simp
qed

text \<open>
  C4, as the code has it. For every create of a workflow definition in manual mode (the
  proposed manifest has an integer \<open>version\<close> field of at least 1) no drift check is
  made. If the GET of the name answers 404, the requested version is created as it is.
  If the name exists with server version \<open>v\<close>, a requested version below \<open>v\<close> fails
  with the version-conflict error and no write is sent; any other requested version is
  written, whether or not the two manifests are equal after elision.
\<close>

theorem create_manual_mode:
  assumes "getWorkflowVersionOptionalFromManifest out_of_range planMap = Inr (version, True)"
    and "getWorkflowNameFromManifest planMap = Inr name"
    and "client_do c (get_workflow name) w = (Some r, w1)"
  shows
    "(StatusCode r = 404 \<longrightarrow>
        requests_sent (WorkflowDefResource_Create out_of_range c planMap w)
          = snd w @ [get_workflow name,
                     put_workflow (fmupd ''version'' (GInt32 version) (delete_auditable planMap))]
        \<and> (client_do c (put_workflow (fmupd ''version'' (GInt32 version)
                                        (delete_auditable planMap))) w1
               = (Some r2, w2) \<and> StatusCode r2 = 200 \<and> BodyReadOk r2 \<longrightarrow>
             WorkflowDefResource_Create out_of_range c planMap w = ([], StateSet version, w2)))
     \<and> (StatusCode r = 200 \<and> BodyReadOk r \<and> unmarshal_map (BodyJSON r) = Some cur
          \<and> getWorkflowVersionFromManifest out_of_range cur = Inr v \<longrightarrow>
          (version <s v \<longrightarrow>
             WorkflowDefResource_Create out_of_range c planMap w
               = ([LargerVersionExists], StateUnchanged, w1)
             \<and> snd w1 = snd w @ [get_workflow name])
          \<and> (v \<le>s version \<longrightarrow>
             requests_sent (WorkflowDefResource_Create out_of_range c planMap w)
               = snd w @ [get_workflow name,
                          put_workflow (fmupd ''version'' (GInt32 version)
                                         (delete_auditable planMap))]
             \<and> (client_do c (put_workflow (fmupd ''version'' (GInt32 version)
                                             (delete_auditable planMap))) w1
                    = (Some r2, w2) \<and> StatusCode r2 = 200 \<and> BodyReadOk r2 \<longrightarrow>
                  WorkflowDefResource_Create out_of_range c planMap w
                    = ([], StateSet version, w2))))"
proof -
  note calls = client_do_calls [OF assms(3)]
  have not_found: ?thesis if "StatusCode r = 404"
  proof -
    have chk: "checkExistingVersionBeforeCreate out_of_range c planMap w
                 = ([], version, True, planMap, w1)"
      using check_404 [OF assms(2) assms(1) assms(3) that] by simp
    show ?thesis
      using that calls create_writes [OF chk] create_written [OF chk, where ?r2.0 = r2 and ?w2.0 = w2]
      by simp
  qed
  have found: ?thesis
    if "StatusCode r = 200" "BodyReadOk r" "unmarshal_map (BodyJSON r) = Some cur"
       "getWorkflowVersionFromManifest out_of_range cur = Inr v"
  proof -
    note chk = check_manual_found [OF assms(2) assms(1) assms(3) that]
    show ?thesis
    proof (cases "version <s v")
      case True
      with chk have chk': "checkExistingVersionBeforeCreate out_of_range c planMap w
                             = ([LargerVersionExists], 0, False, planMap, w1)"
        by simp
      have "\<not> v \<le>s version"
        using True by (simp add: word_sless_alt word_sle_eq)
      then show ?thesis
        using that True calls create_fails [OF chk'] by simp
    next
      case False
      with chk have chk': "checkExistingVersionBeforeCreate out_of_range c planMap w
                             = ([], version, True, planMap, w1)"
        by simp
      show ?thesis
        using that False calls create_writes [OF chk']
              create_written [OF chk', where ?r2.0 = r2 and ?w2.0 = w2]
        by simp
    qed
  qed
  from not_found found show ?thesis by fastforce
qed

text \<open>The proposed manifest \<open>{"name": "w1", "version": 2}\<close>: against a server without
  \<open>w1\<close>, against a server whose \<open>w1\<close> has version 3, and against one whose \<open>w1\<close> has
  version 1.\<close>

theorem create_manual_mode_witness:
  "WorkflowDefResource_Create min_int32_out_of_range scripted
      (fmap_of_list [(''name'', GString ''w1''), (''version'', GFloat64 2)])
      ([Some (status_response 404), Some ok_response], [])
     = ([], StateSet 2,
        ([], [get_workflow ''w1'',
              put_workflow (fmupd ''version'' (GInt32 2) (delete_auditable
                (fmap_of_list [(''name'', GString ''w1''), (''version'', GFloat64 2)])))]))
   \<and> WorkflowDefResource_Create min_int32_out_of_range scripted
      (fmap_of_list [(''name'', GString ''w1''), (''version'', GFloat64 2)])
      ([Some (manifest_response (version_manifest ''w1'' 3)), Some ok_response], [])
     = ([LargerVersionExists], StateUnchanged, ([Some ok_response], [get_workflow ''w1'']))
   \<and> WorkflowDefResource_Create min_int32_out_of_range scripted
      (fmap_of_list [(''name'', GString ''w1''), (''version'', GFloat64 2)])
      ([Some (manifest_response (version_manifest ''w1'' 1)), Some ok_response], [])
     = ([], StateSet 2,
        ([], [get_workflow ''w1'',
              put_workflow (fmupd ''version'' (GInt32 2) (delete_auditable
                (fmap_of_list [(''name'', GString ''w1''), (''version'', GFloat64 2)])))]))"
proof -
  let ?plan = "fmap_of_list [(''name'', GString ''w1''), (''version'', GFloat64 2)]"
  let ?put = "put_workflow (fmupd ''version'' (GInt32 2) (delete_auditable ?plan))"
  let ?w1 = "([Some ok_response], [get_workflow ''w1''])"
  let ?w2 = "([], [get_workflow ''w1'', ?put])"
  have manual: "getWorkflowVersionOptionalFromManifest min_int32_out_of_range ?plan = Inr (2, True)"
    by (simp add: getWorkflowVersionOptionalFromManifest_def int32_of_float64_def word_sless_alt)
  have nm: "getWorkflowNameFromManifest ?plan = Inr ''w1''"
    by (simp add: getWorkflowNameFromManifest_def)
  have v3: "getWorkflowVersionFromManifest min_int32_out_of_range (version_manifest ''w1'' 3) = Inr 3"
    using version_of_version_manifest [of 3 min_int32_out_of_range "''w1''"] by simp
  have v1: "getWorkflowVersionFromManifest min_int32_out_of_range (version_manifest ''w1'' 1) = Inr 1"
    using version_of_version_manifest [of 1 min_int32_out_of_range "''w1''"] by simp
  have g: "client_do scripted (get_workflow ''w1'') ([Some x, Some ok_response], [])
             = (Some x, ?w1)" for x
    by (simp add: client_do_def)
  have p: "client_do scripted ?put ?w1 = (Some ok_response, ?w2)"
    by (simp add: client_do_def)
  have a: "WorkflowDefResource_Create min_int32_out_of_range scripted ?plan
             ([Some (status_response 404), Some ok_response], []) = ([], StateSet 2, ?w2)"
    using create_manual_mode [OF manual nm g, where ?r2.0 = ok_response and ?w2.0 = ?w2] p
    by (simp add: status_response_def ok_response_def)
  have b: "WorkflowDefResource_Create min_int32_out_of_range scripted ?plan
             ([Some (manifest_response (version_manifest ''w1'' 3)), Some ok_response], [])
           = ([LargerVersionExists], StateUnchanged, ?w1)"
    using create_manual_mode [OF manual nm g, where cur = "version_manifest ''w1'' 3" and v = 3] v3
    by (simp add: manifest_response_def unmarshal_map_def word_sless_alt)
  have c: "WorkflowDefResource_Create min_int32_out_of_range scripted ?plan
             ([Some (manifest_response (version_manifest ''w1'' 1)), Some ok_response], [])
           = ([], StateSet 2, ?w2)"
    using create_manual_mode [OF manual nm g, where cur = "version_manifest ''w1'' 1" and v = 1
            and ?r2.0 = ok_response and ?w2.0 = ?w2] v1 p
    by (simp add: manifest_response_def unmarshal_map_def ok_response_def word_sle_eq)
  from a b c show ?thesis by simp
qed

text \<open>The claim as written fails: the proposed \<open>{"name": "w1", "version": 2}\<close> and the
  server's \<open>{"name": "w1", "version": 2, "schemaVersion": 2}\<close> are equal after elision,
  with the \<open>version\<close> field or without it, and the provider sends the write all the
  same.\<close>

theorem create_manual_drift_counterexample:
  "workflowDefCleanup (fmap_of_list [(''name'', GString ''w1''), (''version'', GFloat64 2)])
     = workflowDefCleanup (fmap_of_list [(''name'', GString ''w1''), (''version'', GFloat64 2),
                                         (''schemaVersion'', GFloat64 2)])
   \<and> fmdrop ''version''
        (workflowDefCleanup (fmap_of_list [(''name'', GString ''w1''), (''version'', GFloat64 2)]))
     = fmdrop ''version''
        (workflowDefCleanup (fmap_of_list [(''name'', GString ''w1''), (''version'', GFloat64 2),
                                           (''schemaVersion'', GFloat64 2)]))
   \<and> WorkflowDefResource_Create min_int32_out_of_range scripted
      (fmap_of_list [(''name'', GString ''w1''), (''version'', GFloat64 2)])
      ([Some (manifest_response (fmap_of_list
          [(''name'', GString ''w1''), (''version'', GFloat64 2),
           (''schemaVersion'', GFloat64 2)])), Some ok_response], [])
     = ([], StateSet 2,
        ([], [get_workflow ''w1'',
              put_workflow (fmupd ''version'' (GInt32 2) (delete_auditable
                (fmap_of_list [(''name'', GString ''w1''), (''version'', GFloat64 2)])))]))"
proof -
  let ?plan = "fmap_of_list [(''name'', GString ''w1''), (''version'', GFloat64 2)]"
  let ?srv = "fmap_of_list [(''name'', GString ''w1''), (''version'', GFloat64 2),
                            (''schemaVersion'', GFloat64 2)]"
  let ?put = "put_workflow (fmupd ''version'' (GInt32 2) (delete_auditable ?plan))"
  have eq: "workflowDefCleanup ?plan = workflowDefCleanup ?srv"
    by (rule fmap_ext)
       (simp add: workflowDefCleanup_lookup spec_elides_def defaultWorkflowDefValues_def
                  auditableFieldsToIgnore_def)
  have manual: "getWorkflowVersionOptionalFromManifest min_int32_out_of_range ?plan = Inr (2, True)"
    by (simp add: getWorkflowVersionOptionalFromManifest_def int32_of_float64_def word_sless_alt)
  have nm: "getWorkflowNameFromManifest ?plan = Inr ''w1''"
    by (simp add: getWorkflowNameFromManifest_def)
  have v: "getWorkflowVersionFromManifest min_int32_out_of_range ?srv = Inr 2"
    by (simp add: getWorkflowVersionFromManifest_def getWorkflowVersionOptionalFromManifest_def
                  int32_of_float64_def word_sless_alt)
  have g: "client_do scripted (get_workflow ''w1'')
             ([Some (manifest_response ?srv), Some ok_response], [])
           = (Some (manifest_response ?srv), ([Some ok_response], [get_workflow ''w1'']))"
    by (simp add: client_do_def)
  have chk: "checkExistingVersionBeforeCreate min_int32_out_of_range scripted ?plan
               ([Some (manifest_response ?srv), Some ok_response], [])
             = ([], 2, True, ?plan, ([Some ok_response], [get_workflow ''w1'']))"
    using check_manual_found [OF nm manual g, where cur = ?srv and v = 2] v
    by (simp add: manifest_response_def unmarshal_map_def word_sless_alt)
  have p: "client_do scripted ?put ([Some ok_response], [get_workflow ''w1''])
             = (Some ok_response, ([], [get_workflow ''w1'', ?put]))"
    by (simp add: client_do_def)
  have "WorkflowDefResource_Create min_int32_out_of_range scripted ?plan
          ([Some (manifest_response ?srv), Some ok_response], [])
        = ([], StateSet 2, ([], [get_workflow ''w1'', ?put]))"
    using create_written [OF chk p] by (simp add: ok_response_def)
  with eq show ?thesis by simp
qed

section \<open>Updating a workflow definition\<close>

lemma update_put_requests:
  "requests_sent (update_put c manifestMap newVersion w) = snd w @ [put_workflow manifestMap]"
  by (auto simp: update_put_def requests_sent_def client_do_def split: prod.splits option.splits)

lemma update_put_ok:
  "client_do c (put_workflow manifestMap) w = (Some r, w1) \<Longrightarrow> StatusCode r = 200
     \<Longrightarrow> update_put c manifestMap newVersion w = ([], StateSet newVersion, w1)"
  by (simp add: update_put_def)

lemma verify_found:
  assumes "getWorkflowNameFromManifest planMap = Inr name"
    and "client_do c (get_workflow name) w = (Some r, w1)"
    and "StatusCode r = 200" and "BodyReadOk r"
    and "unmarshal_map (BodyJSON r) = Some cur"
    and "getWorkflowVersionFromManifest out_of_range cur = Inr latest"
  shows "verifyValidVersionForUpdate out_of_range c planMap planVersion w
           = Returns (if planVersion <s latest then [LargerVersionExists] else [], w1)"
  using assms by (simp add: verifyValidVersionForUpdate_def)

text \<open>
  What an update does, for every client. If the proposed manifest has a \<open>version\<close>
  field, the requested version is compared with the server's latest version before any
  write: when it is smaller the operation fails with the version-conflict error and no
  write is sent; when it is greater or equal the manifest is written with the \<open>version\<close>
  field as proposed (not incremented), and a write that the server answers with 200 sets
  the tracked version to the requested one. If the \<open>version\<close> field is absent, the
  write is always sent, with the version \<^verbatim>\<open>stateVersion.ValueInt32() + 1\<close>, an int32 sum,
  which by \<open>int32_successor\<close> is the tracked version plus one for every tracked version
  below 2147483647; a write answered with 200 sets the tracked version to that number.
\<close>

lemma update_versions:
  "(getWorkflowVersionOptionalFromManifest out_of_range (delete_auditable manifestMap)
       = Inr (planVersion, True)
     \<and> getWorkflowNameFromManifest (delete_auditable manifestMap) = Inr name
     \<and> client_do c (get_workflow name) w = (Some r, w1)
     \<and> StatusCode r = 200 \<and> BodyReadOk r \<and> unmarshal_map (BodyJSON r) = Some cur
     \<and> getWorkflowVersionFromManifest out_of_range cur = Inr latest \<longrightarrow>
       (planVersion <s latest \<longrightarrow>
          WorkflowDefResource_Update out_of_range c manifestMap stateVersion w
            = Returns ([LargerVersionExists], StateUnchanged, w1)
          \<and> snd w1 = snd w @ [get_workflow name])
       \<and> (latest \<le>s planVersion \<longrightarrow>
          WorkflowDefResource_Update out_of_range c manifestMap stateVersion w
            = Returns (update_put c (delete_auditable manifestMap) planVersion w1)
          \<and> requests_sent (update_put c (delete_auditable manifestMap) planVersion w1)
              = snd w @ [get_workflow name, put_workflow (delete_auditable manifestMap)]
          \<and> fmlookup (delete_auditable manifestMap) ''version'' = fmlookup manifestMap ''version''
          \<and> (client_do c (put_workflow (delete_auditable manifestMap)) w1 = (Some r2, w2)
               \<and> StatusCode r2 = 200 \<longrightarrow>
              WorkflowDefResource_Update out_of_range c manifestMap stateVersion w
                = Returns ([], StateSet planVersion, w2))))
   \<and> (fmlookup manifestMap ''version'' = None \<longrightarrow>
        WorkflowDefResource_Update out_of_range c manifestMap stateVersion w
          = Returns (update_put c
               (fmupd ''version'' (GInt32 (stateVersion + 1)) (delete_auditable manifestMap))
               (stateVersion + 1) w)
        \<and> requests_sent (update_put c
               (fmupd ''version'' (GInt32 (stateVersion + 1)) (delete_auditable manifestMap))
               (stateVersion + 1) w)
            = snd w @ [put_workflow
                (fmupd ''version'' (GInt32 (stateVersion + 1)) (delete_auditable manifestMap))]
        \<and> (client_do c (put_workflow
               (fmupd ''version'' (GInt32 (stateVersion + 1)) (delete_auditable manifestMap))) w
             = (Some r3, w3) \<and> StatusCode r3 = 200 \<longrightarrow>
            WorkflowDefResource_Update out_of_range c manifestMap stateVersion w
              = Returns ([], StateSet (stateVersion + 1), w3)))"
proof (intro conjI impI)
  let ?m = "delete_auditable manifestMap"
  assume a: "getWorkflowVersionOptionalFromManifest out_of_range ?m = Inr (planVersion, True)
     \<and> getWorkflowNameFromManifest ?m = Inr name
     \<and> client_do c (get_workflow name) w = (Some r, w1)
     \<and> StatusCode r = 200 \<and> BodyReadOk r \<and> unmarshal_map (BodyJSON r) = Some cur
     \<and> getWorkflowVersionFromManifest out_of_range cur = Inr latest"
  then have vf: "verifyValidVersionForUpdate out_of_range c ?m planVersion w
                   = Returns (if planVersion <s latest then [LargerVersionExists] else [], w1)"
    using verify_found [of ?m name c w r w1 cur out_of_range latest planVersion] by simp
  from a have calls: "snd w1 = snd w @ [get_workflow name]"
    using client_do_calls [of c "get_workflow name" w "Some r" w1] by simp
  show "snd w1 = snd w @ [get_workflow name]" if "planVersion <s latest"
    by (rule calls)
  show "WorkflowDefResource_Update out_of_range c manifestMap stateVersion w
          = Returns ([LargerVersionExists], StateUnchanged, w1)" if "planVersion <s latest"
    using a vf that by (simp add: WorkflowDefResource_Update_def Let_def)
  show "fmlookup ?m ''version'' = fmlookup manifestMap ''version''"
    by (simp add: delete_auditable_lookup auditableFieldsToIgnore_def)
  show "requests_sent (update_put c ?m planVersion w1)
          = snd w @ [get_workflow name, put_workflow ?m]"
    by (simp add: update_put_requests calls)
  assume "latest \<le>s planVersion"
  then have ge: "\<not> planVersion <s latest"
    by (simp add: word_sless_alt word_sle_eq)
  show upd: "WorkflowDefResource_Update out_of_range c manifestMap stateVersion w
          = Returns (update_put c ?m planVersion w1)"
    using a vf ge by (simp add: WorkflowDefResource_Update_def Let_def)
  assume "client_do c (put_workflow ?m) w1 = (Some r2, w2) \<and> StatusCode r2 = 200"
  then show "WorkflowDefResource_Update out_of_range c manifestMap stateVersion w
               = Returns ([], StateSet planVersion, w2)"
    using upd update_put_ok [of c ?m w1 r2 w2 planVersion] by simp
next
  let ?m' = "fmupd ''version'' (GInt32 (stateVersion + 1)) (delete_auditable manifestMap)"
  assume "fmlookup manifestMap ''version'' = None"
  then have "fmlookup (delete_auditable manifestMap) ''version'' = None"
    by (simp add: delete_auditable_lookup)
  then show upd: "WorkflowDefResource_Update out_of_range c manifestMap stateVersion w
                    = Returns (update_put c ?m' (stateVersion + 1) w)"
    by (simp add: WorkflowDefResource_Update_def Let_def version_absent)
  show "requests_sent (update_put c ?m' (stateVersion + 1) w) = snd w @ [put_workflow ?m']"
    by (rule update_put_requests)
  assume "client_do c (put_workflow ?m') w = (Some r3, w3) \<and> StatusCode r3 = 200"
  then show "WorkflowDefResource_Update out_of_range c manifestMap stateVersion w
               = Returns ([], StateSet (stateVersion + 1), w3)"
    using upd update_put_ok [of c ?m' w r3 w3 "stateVersion + 1"] by simp
qed

text \<open>Scenario C of the specification (version 1 requested, the server's latest is 3); the
  request of version 3 against the same server; and an update without a \<open>version\<close>
  field from the tracked version 2.\<close>

lemma update_versions_examples:
  "WorkflowDefResource_Update min_int32_out_of_range scripted
      (fmap_of_list [(''name'', GString ''w1''), (''version'', GFloat64 1)]) 3
      ([Some (manifest_response (version_manifest ''w1'' 3)), Some ok_response], [])
     = Returns ([LargerVersionExists], StateUnchanged,
                ([Some ok_response], [get_workflow ''w1'']))
   \<and> WorkflowDefResource_Update min_int32_out_of_range scripted
      (fmap_of_list [(''name'', GString ''w1''), (''version'', GFloat64 3)]) 3
      ([Some (manifest_response (version_manifest ''w1'' 3)), Some ok_response], [])
     = Returns ([], StateSet 3,
                ([], [get_workflow ''w1'',
                      put_workflow (delete_auditable
                        (fmap_of_list [(''name'', GString ''w1''), (''version'', GFloat64 3)]))]))
   \<and> WorkflowDefResource_Update min_int32_out_of_range scripted
      (fmap_of_list [(''name'', GString ''w1'')]) 2 ([Some ok_response], [])
     = Returns ([], StateSet 3,
                ([], [put_workflow (fmupd ''version'' (GInt32 3) (delete_auditable
                        (fmap_of_list [(''name'', GString ''w1'')])))]))"
proof -
  let ?low = "fmap_of_list [(''name'', GString ''w1''), (''version'', GFloat64 1)]"
  let ?high = "fmap_of_list [(''name'', GString ''w1''), (''version'', GFloat64 3)]"
  let ?auto = "fmap_of_list [(''name'', GString ''w1'')]"
  let ?srv = "manifest_response (version_manifest ''w1'' 3)"
  let ?w = "([Some ?srv, Some ok_response], [])"
  let ?w1 = "([Some ok_response], [get_workflow ''w1''])"
  let ?put = "put_workflow (delete_auditable ?high)"
  let ?put' = "put_workflow (fmupd ''version'' (GInt32 (2 + 1)) (delete_auditable ?auto))"
  have v_low: "getWorkflowVersionOptionalFromManifest min_int32_out_of_range (delete_auditable ?low)
                 = Inr (1, True)"
    and v_high: "getWorkflowVersionOptionalFromManifest min_int32_out_of_range (delete_auditable ?high)
                 = Inr (3, True)"
    by (simp_all add: getWorkflowVersionOptionalFromManifest_def int32_of_float64_def
                      word_sless_alt delete_auditable_lookup auditableFieldsToIgnore_def)
  have nm: "getWorkflowNameFromManifest (delete_auditable ?low) = Inr ''w1''"
           "getWorkflowNameFromManifest (delete_auditable ?high) = Inr ''w1''"
    by (simp_all add: getWorkflowNameFromManifest_def delete_auditable_lookup
                      auditableFieldsToIgnore_def)
  have v3: "getWorkflowVersionFromManifest min_int32_out_of_range (version_manifest ''w1'' 3) = Inr 3"
    using version_of_version_manifest [of 3 min_int32_out_of_range "''w1''"] by simp
  have g: "client_do scripted (get_workflow ''w1'') ?w = (Some ?srv, ?w1)"
    by (simp add: client_do_def)
  have p: "client_do scripted ?put ?w1 = (Some ok_response, ([], [get_workflow ''w1'', ?put]))"
    and p': "client_do scripted ?put' ([Some ok_response], [])
               = (Some ok_response, ([], [?put']))"
    by (simp_all add: client_do_def)
  have a: "WorkflowDefResource_Update min_int32_out_of_range scripted ?low 3 ?w
             = Returns ([LargerVersionExists], StateUnchanged, ?w1)"
    using update_versions [where manifestMap = ?low and out_of_range = min_int32_out_of_range
            and planVersion = 1 and name = "''w1''" and c = scripted and w = ?w
            and r = ?srv and ?w1.0 = ?w1 and cur = "version_manifest ''w1'' 3" and latest = 3
            and stateVersion = 3]
          v_low nm g v3
    by (simp add: manifest_response_def unmarshal_map_def word_sless_alt)
  have srv: "StatusCode ?srv = 200" "BodyReadOk ?srv"
            "unmarshal_map (BodyJSON ?srv) = Some (version_manifest ''w1'' 3)"
    by (simp_all add: manifest_response_def unmarshal_map_def)
  have ok: "StatusCode ok_response = 200"
    by (simp add: ok_response_def)
  have ge: "(3::int32) \<le>s 3"
    by (simp add: word_sle_eq)
  have b: "WorkflowDefResource_Update min_int32_out_of_range scripted ?high 3 ?w
             = Returns ([], StateSet 3, ([], [get_workflow ''w1'', ?put]))"
    using update_versions [where manifestMap = ?high and out_of_range = min_int32_out_of_range
            and planVersion = 3 and name = "''w1''" and c = scripted and w = ?w
            and r = ?srv and ?w1.0 = ?w1 and cur = "version_manifest ''w1'' 3" and latest = 3
            and stateVersion = 3 and ?r2.0 = ok_response
            and ?w2.0 = "([], [get_workflow ''w1'', ?put])"]
          v_high nm(2) g v3 p srv ok ge
    by blast
  have absent: "fmlookup ?auto ''version'' = None"
    by simp
  have c: "WorkflowDefResource_Update min_int32_out_of_range scripted ?auto 2 ([Some ok_response], [])
             = Returns ([], StateSet (2 + 1), ([], [?put']))"
    by (rule update_versions
          [where manifestMap = ?auto and out_of_range = min_int32_out_of_range
             and c = scripted and w = "([Some ok_response], [])" and stateVersion = 2
             and ?r3.0 = ok_response and ?w3.0 = "([], [?put'])",
           THEN conjunct2, THEN mp, OF absent, THEN conjunct2, THEN conjunct2, THEN mp,
           OF conjI [OF p' ok]])
  from a b c show ?thesis by simp
qed

text \<open>
  C3. For every update of a workflow definition: with a \<open>version\<close> field in the
  proposed manifest, a requested version below the server's latest fails with the
  version-conflict error and no write, and any other requested version is written as
  proposed; without the field, the tracked version plus one is assigned and the write is
  always sent. The code does this (\<open>update_versions\<close>) except at the largest int32. An
  update of \<open>{"name": "w1"}\<close> from the tracked version 2147483647 writes the version
  -2147483648, the wrapped int32 sum, and a 200 answer makes that the tracked version,
  where the tracked version plus one is 2147483648. The provider's own reading of a
  version rejects the number written as smaller than 1, and the schema's description of
  auto mode says that every update increments the version by 1.
\<close>

theorem update_auto_mode_overflow:
  "WorkflowDefResource_Update min_int32_out_of_range scripted
      (fmap_of_list [(''name'', GString ''w1'')]) 2147483647 ([Some ok_response], [])
     = Returns ([], StateSet (- 2147483648),
                ([], [put_workflow (fmupd ''version'' (GInt32 (- 2147483648))
                        (delete_auditable (fmap_of_list [(''name'', GString ''w1'')])))]))
   \<and> sint (2147483647 :: int32) + 1 = 2147483648
   \<and> sint (- 2147483648 :: int32) = - 2147483648
   \<and> getWorkflowVersionFromManifest min_int32_out_of_range
        (fmap_of_list [(''name'', GString ''w1''), (''version'', GFloat64 (- 2147483648))])
       = Inl VersionSmallerThan1"
proof -
  let ?plan = "fmap_of_list [(''name'', GString ''w1'')]"
  let ?m = "fmupd ''version'' (GInt32 (- 2147483648)) (delete_auditable ?plan)"
  have absent: "fmlookup ?plan ''version'' = None"
    by simp
  have bottom: "getWorkflowVersionFromManifest min_int32_out_of_range
        (fmap_of_list [(''name'', GString ''w1''), (''version'', GFloat64 (- 2147483648))])
       = Inl VersionSmallerThan1"
    by (simp add: getWorkflowVersionFromManifest_def getWorkflowVersionOptionalFromManifest_def
                  int32_of_float64_def word_sless_alt)
  have upd: "WorkflowDefResource_Update min_int32_out_of_range scripted ?plan 2147483647
               ([Some ok_response], [])
             = Returns (update_put scripted ?m (- 2147483648) ([Some ok_response], []))"
    using update_versions
            [where manifestMap = ?plan and stateVersion = 2147483647 and c = scripted
               and out_of_range = min_int32_out_of_range and w = "([Some ok_response], [])",
             THEN conjunct2, THEN mp, OF absent, THEN conjunct1]
    unfolding int32_successor_top .
  have p: "client_do scripted (put_workflow ?m) ([Some ok_response], [])
             = (Some ok_response, ([], [put_workflow ?m]))"
    by (simp add: client_do_def)
  have ok: "StatusCode ok_response = 200"
    by (simp add: ok_response_def)
  have "update_put scripted ?m (- 2147483648) ([Some ok_response], [])
          = ([], StateSet (- 2147483648), ([], [put_workflow ?m]))"
    by (rule update_put_ok [OF p ok])
  with upd bottom show ?thesis by simp
qed

end
